theory Spec2Isabelle
  imports Complex_Main "HOL-Library.Char_ord" "HOL-Library.List_Lexorder"
    "HOL-Library.Product_Lexorder"
begin

section \<open>The Illinois budget calculator\<close>

text \<open>
  The script \<^verbatim>\<open>il_budget_v2.py\<close> loads a spreadsheet of appropriations, groups it by fund category and fund
  name, reads percentage adjustments from number-input widgets, and recomputes revenue,
  spending and deficit totals.

  Numbers are modelled as exact rationals: pandas' float64 rounding is not part of the
  model. A missing number (pandas' NaN) is \<open>None\<close>.
\<close>

subsection \<open>Loading the data (\<open>load_data\<close>)\<close>

text \<open>
  A cell of the amount column as \<open>read_excel\<close> delivers it: empty (NaN), a number, or
  text. Category and fund name cells are either empty or a string.
\<close>

datatype cell = Missing | Num rat | Text string

record raw_row =
  raw_category :: "string option"
  raw_fund :: "string option"
  raw_approp :: cell

text \<open>
  A row of \<open>df\<close> after \<open>load_data\<close>: the two name columns, \<open>FY25 Act Approp\<close>
  after \<open>to_numeric\<close>, and the derived column \<open>FY25 Act Approp (M)\<close>.
\<close>

record row =
  category_name :: string
  fund_name :: string
  approp :: "rat option"
  approp_m :: "rat option"

text \<open>\<open>df.dropna(subset=[...])\<close>: keep the rows whose three cells are all present.\<close>

definition dropna :: "raw_row list \<Rightarrow> raw_row list" where
  "dropna rows =
     filter (\<lambda>r. raw_category r \<noteq> None \<and> raw_fund r \<noteq> None \<and> raw_approp r \<noteq> Missing) rows"

text \<open>
  \<open>pd.to_numeric(..., errors='coerce')\<close>: a number stays, an empty cell stays missing,
  and text goes through pandas' numeral parser, which is library code and a parameter
  here; text it rejects becomes NaN.
\<close>

fun to_numeric :: "(string \<Rightarrow> rat option) \<Rightarrow> cell \<Rightarrow> rat option" where
  "to_numeric parse Missing = None"
| "to_numeric parse (Num a) = Some a"
| "to_numeric parse (Text s) = parse s"

definition in_millions :: "rat option \<Rightarrow> rat option" where
  "in_millions a = map_option (\<lambda>x. x / 1000000) a"

definition convert_row :: "(string \<Rightarrow> rat option) \<Rightarrow> raw_row \<Rightarrow> row option" where
  "convert_row parse r =
     (case (raw_category r, raw_fund r) of
        (Some c, Some f) \<Rightarrow>
          Some \<lparr>category_name = c, fund_name = f,
                approp = to_numeric parse (raw_approp r),
                approp_m = in_millions (to_numeric parse (raw_approp r))\<rparr>
      | _ \<Rightarrow> None)"

text \<open>The order of the source: first the drop, then the coercion, then the scaling.\<close>

definition load_data :: "(string \<Rightarrow> rat option) \<Rightarrow> raw_row list \<Rightarrow> row list" where
  "load_data parse rows = List.map_filter (convert_row parse) (dropna rows)"

text \<open>
  A concrete parser for the examples: it reads a non-empty string of decimal digits and
  rejects everything else. pandas reads more numerals than these (signs, fractions,
  exponents, infinities); the examples use digit strings and the word TBD only, on which
  the two agree.
\<close>

definition digit_chars :: "char list" where
  "digit_chars = ''0123456789''"

fun digit_value :: "char \<Rightarrow> nat" where
  "digit_value c = length (takeWhile (\<lambda>d. d \<noteq> c) digit_chars)"

definition parse_digits :: "string \<Rightarrow> rat option" where
  "parse_digits s =
     (if s \<noteq> [] \<and> list_all (\<lambda>c. c \<in> set digit_chars) s
      then Some (of_nat (foldl (\<lambda>n c. 10 * n + digit_value c) 0 s))
      else None)"

definition revenue_fund_cats :: "string list" where
  "revenue_fund_cats =
     [''General Funds'', ''Highway Funds'', ''Special State Funds'', ''Federal Trust Funds'']"

subsection \<open>Aggregation (\<open>grouped_df\<close>)\<close>

text \<open>pandas' \<open>sum\<close> skips NaN.\<close>

definition sum_skipna :: "rat option list \<Rightarrow> rat" where
  "sum_skipna xs = sum_list (map (\<lambda>x. case x of None \<Rightarrow> 0 | Some v \<Rightarrow> v) xs)"


text \<open>\<open>groupby\<close> sorts the group keys; here they are (category, fund) pairs.\<close>

definition group_keys :: "row list \<Rightarrow> (string \<times> string) list" where
  "group_keys df = sort (remdups (map (\<lambda>r. (category_name r, fund_name r)) df))"

definition group_sum :: "row list \<Rightarrow> string \<times> string \<Rightarrow> rat" where
  "group_sum df k =
     sum_skipna (map approp_m (filter (\<lambda>r. (category_name r, fund_name r) = k) df))"

text \<open>
  Division of floats in pandas does not raise: a zero divisor gives NaN or an infinity.
  \<open>None\<close> stands for any such non-finite result.
\<close>

definition fdiv :: "rat \<Rightarrow> rat \<Rightarrow> rat option" where
  "fdiv a b = (if b = 0 then None else Some (a / b))"

definition times100 :: "rat option \<Rightarrow> rat option" where
  "times100 q = map_option (\<lambda>x. x * 100) q"

record fund_aggregate =
  g_category :: string
  g_fund :: string
  g_value :: rat
  category_total :: rat
  category_pct_of_total :: "rat option"
  fund_pct_of_category :: "rat option"

text \<open>The three columns of the \<open>groupby(...).agg(sum)\<close> result.\<close>

definition groupby_sum :: "row list \<Rightarrow> (string \<times> string \<times> rat) list" where
  "groupby_sum df = map (\<lambda>k. (fst k, snd k, group_sum df k)) (group_keys df)"

definition total_appropriation :: "(string \<times> string \<times> rat) list \<Rightarrow> rat" where
  "total_appropriation g = sum_list (map (\<lambda>(c, f, v). v) g)"

text \<open>\<open>groupby('Fund Category Name')[...].transform('sum')\<close> at a row of category \<open>c\<close>.\<close>

definition transform_sum :: "(string \<times> string \<times> rat) list \<Rightarrow> string \<Rightarrow> rat" where
  "transform_sum g c = sum_list (map (\<lambda>(c', f, v). v) (filter (\<lambda>(c', f, v). c' = c) g))"

definition grouped_df :: "row list \<Rightarrow> fund_aggregate list" where
  "grouped_df df =
     (let g = groupby_sum df
      in map (\<lambda>(c, f, v).
            \<lparr>g_category = c, g_fund = f, g_value = v,
             category_total = transform_sum g c,
             category_pct_of_total = times100 (fdiv (transform_sum g c) (total_appropriation g)),
             fund_pct_of_category = times100 (fdiv v (transform_sum g c))\<rparr>) g)"

subsection \<open>The adjustment widgets\<close>

text \<open>
  Every \<open>number_input\<close> has a key. The keys of the source are strings built from the
  tab, the category and the fund; the model keeps these components apart. The session
  state maps a key to the value the user entered; a widget without an entry returns
  its default.
\<close>

datatype wkey =
    Spend_All | Rev_All
  | Spend_Cat string | Spend_Fund string string
  | Rev_Cat string | Rev_Fund string string

type_synonym session_state = "wkey \<rightharpoonup> rat"

definition number_input :: "session_state \<Rightarrow> wkey \<Rightarrow> rat \<Rightarrow> rat" where
  "number_input ss k dflt = (case ss k of Some v \<Rightarrow> v | None \<Rightarrow> dflt)"

type_synonym adjustments = "(string \<rightharpoonup> rat) \<times> (string \<rightharpoonup> rat)"

text \<open>
  The inner loop over the funds of one category. It is written twice in the source,
  once per tab, differing in the key only; \<open>fkey\<close> is that key.
\<close>

fun fund_loop ::
  "session_state \<Rightarrow> (string \<Rightarrow> string \<Rightarrow> wkey) \<Rightarrow> string \<Rightarrow> string list \<Rightarrow>
   (string \<rightharpoonup> rat) \<Rightarrow> (string \<rightharpoonup> rat)" where
  "fund_loop ss fkey c [] fa = fa"
| "fund_loop ss fkey c (f # fs) fa =
     (let fund_pct = number_input ss (fkey c f) 0
      in fund_loop ss fkey c fs (if fund_pct \<noteq> 0 then fa(f \<mapsto> fund_pct) else fa))"





subsection \<open>Totals\<close>

text \<open>\<open>fund_adjustments.get(fund_name, category_adjustments.get(fund_cat, 0))\<close>\<close>

definition resolve_pct :: "adjustments \<Rightarrow> string \<Rightarrow> string \<Rightarrow> rat" where
  "resolve_pct adj fund_cat fname =
     (case snd adj fname of
        Some v \<Rightarrow> v
      | None \<Rightarrow> (case fst adj fund_cat of Some v \<Rightarrow> v | None \<Rightarrow> 0))"

text \<open>The loop over \<open>grouped_df.iterrows()\<close>; the state is (adjusted revenue, adjusted spending).\<close>

fun totals_loop :: "adjustments \<Rightarrow> fund_aggregate list \<Rightarrow> rat \<times> rat \<Rightarrow> rat \<times> rat" where
  "totals_loop adj [] acc = acc"
| "totals_loop adj (r # rs) acc =
     (let pct = resolve_pct adj (g_category r) (g_fund r);
          contribution = g_value r * (1 + pct / 100);
          adjusted_revenue =
            (if g_category r \<in> set revenue_fund_cats then fst acc + contribution else fst acc);
          adjusted_spending = snd acc + contribution
      in totals_loop adj rs (adjusted_revenue, adjusted_spending))"

record totals =
  original_revenue :: rat
  original_spending :: rat
  original_deficit :: rat
  adjusted_revenue :: rat
  adjusted_spending :: rat
  adjusted_deficit :: rat

definition calculate_totals :: "row list \<Rightarrow> fund_aggregate list \<Rightarrow> adjustments \<Rightarrow> totals" where
  "calculate_totals df g adj =
     (let adjusted = totals_loop adj g (0, 0);
          orig_revenue =
            sum_skipna (map approp_m (filter (\<lambda>r. category_name r \<in> set revenue_fund_cats) df));
          orig_spending = sum_skipna (map approp_m df)
      in \<lparr>original_revenue = orig_revenue,
          original_spending = orig_spending,
          original_deficit = orig_revenue - orig_spending,
          adjusted_revenue = fst adjusted,
          adjusted_spending = snd adjusted,
          adjusted_deficit = fst adjusted - snd adjusted\<rparr>)"


subsection \<open>Notions used to state the properties\<close>

text \<open>What one aggregate adds to the adjusted totals in the loop.\<close>

definition contribution :: "adjustments \<Rightarrow> fund_aggregate \<Rightarrow> rat" where
  "contribution adj r = g_value r * (1 + resolve_pct adj (g_category r) (g_fund r) / 100)"







subsection \<open>Example inputs\<close>

definition raw :: "string \<Rightarrow> string \<Rightarrow> cell \<Rightarrow> raw_row" where
  "raw c f a = \<lparr>raw_category = Some c, raw_fund = Some f, raw_approp = a\<rparr>"













text \<open>
  A table whose amount cell holds text that is no numeral (and none of the strings that
  \<open>read_excel\<close> itself reads as an empty cell).
\<close>

definition text_amount_rows :: "raw_row list" where
  "text_amount_rows = [raw ''General Funds'' ''F1'' (Text ''TBD'')]"








section \<open>Properties\<close>

subsection \<open>Regrouping sums\<close>







lemma g_category_grouped_df: "map g_category (grouped_df df) = map fst (group_keys df)"
  by (simp add: grouped_df_def groupby_sum_def Let_def comp_def)

lemma g_fund_grouped_df: "map g_fund (grouped_df df) = map snd (group_keys df)"
  by (simp add: grouped_df_def groupby_sum_def Let_def comp_def)



subsection \<open>The widget loops\<close>



lemma fund_loop_outside: "f \<notin> set fs \<Longrightarrow> fund_loop ss fkey c fs fa f = fa f"
  by (induction fs arbitrary: fa) (auto simp: Let_def)












subsection \<open>Totals\<close>














text \<open>
  Claim C10. For any table and any adjustments the original deficit is the original
  revenue minus the original spending, and the adjusted deficit is the adjusted revenue
  minus the adjusted spending. The deficit keeps its sign: it is negative exactly when
  spending exceeds revenue.
\<close>
theorem deficit_is_revenue_minus_spending:
  "original_deficit (calculate_totals df g adj) =
     original_revenue (calculate_totals df g adj) - original_spending (calculate_totals df g adj) \<and>
   adjusted_deficit (calculate_totals df g adj) =
     adjusted_revenue (calculate_totals df g adj) - adjusted_spending (calculate_totals df g adj) \<and>
   (original_deficit (calculate_totals df g adj) < 0 \<longleftrightarrow>
      original_revenue (calculate_totals df g adj) < original_spending (calculate_totals df g adj)) \<and>
   (adjusted_deficit (calculate_totals df g adj) < 0 \<longleftrightarrow>
      adjusted_revenue (calculate_totals df g adj) < adjusted_spending (calculate_totals df g adj))"
  by (simp add: calculate_totals_def Let_def)


subsection \<open>Shares\<close>













subsection \<open>Resolution of percentages\<close>


















subsection \<open>The example tables\<close>









subsection \<open>The claims on the example tables\<close>








text \<open>
  Claim C1. The claim says that no row whose amount fails the coercion reaches the
  aggregation. The source drops missing amounts before it coerces, so a row whose amount
  is text that is no numeral passes the drop, is kept with a missing amount, and forms a
  group of the aggregated table.
\<close>
theorem coerced_text_amount_survives_load:
  "load_data parse_digits text_amount_rows =
     [\<lparr>category_name = ''General Funds'', fund_name = ''F1'', approp = None, approp_m = None\<rparr>] \<and>
   grouped_df (load_data parse_digits text_amount_rows) =
     [\<lparr>g_category = ''General Funds'', g_fund = ''F1'', g_value = 0, category_total = 0,
       category_pct_of_total = None, fund_pct_of_category = None\<rparr>]"
  by (simp add: text_amount_rows_def raw_def load_data_def dropna_def List.map_filter_def
        convert_row_def in_millions_def parse_digits_def digit_chars_def grouped_df_def
        groupby_sum_def group_keys_def group_sum_def sum_skipna_def transform_sum_def
        total_appropriation_def fdiv_def times100_def)















end
